theory Spec2Isabelle
  imports Main "HOL-Library.Sublist"
begin

section \<open>Data model\<close>

text \<open>
  Modelled from the spec: the schema declarations of \<^verbatim>\<open>gateway.schemas\<close>
  (\<^verbatim>\<open>ProductSchema\<close>, \<^verbatim>\<open>CreateOrderSchema\<close>, \<^verbatim>\<open>GetOrderSchema\<close>) are not part of the
  sources, so the field lists of the records below follow sections 3 and 6 of the
  specification. The service of \<^verbatim>\<open>gateway/service.py\<close> works on Python dicts of these
  shapes. A dict key that the code adds later (\<^verbatim>\<open>item['product']\<close>, \<^verbatim>\<open>item['image']\<close>) is
  an optional field: \<open>None\<close> is "key absent".
\<close>

record product =
  id_product :: string
  title :: string
  passenger_capacity :: int
  maximum_speed :: int
  in_stock :: int

record order_detail =
  product_id :: string
  price :: string
  quantity :: int
  product_fld :: "product option"
  image_fld :: "string option"

text \<open>
  The body of an order-creation request has only \<^verbatim>\<open>order_details\<close>; an order of the
  ledger has an \<^verbatim>\<open>id\<close> as well. The helper functions of the service read
  \<^verbatim>\<open>order['order_details']\<close> of either, which the record extension renders.
\<close>

record order_data =
  order_details :: "order_detail list"

record order = order_data +
  id_order :: int

record response =
  body :: string
  mimetype :: string

text \<open>The exceptions that travel through the service; the argument is the message.\<close>

datatype exn =
    ProductNotFound string
  | OrderNotFound string
  | ValidationError string
  | BadRequest string
  | ValueError string
  | KeyError string
  | TypeError string
  | RecursionError string
  | RemoteError string

text \<open>A parsed JSON document, the value of \<^verbatim>\<open>json.loads\<close> (numbers as integers).\<close>

datatype json =
    JNull
  | JBool bool
  | JNum int
  | JStr string
  | JArr "json list"
  | JObj "(string \<times> json) list"

section \<open>Collaborators\<close>

text \<open>
  The two RPC proxies. Each remote method is a function from its arguments to the value it
  returns or the exception it raises, as seen by the one request being served. The argument
  of \<^verbatim>\<open>products_rpc.create\<close> is whatever the schema loaded: a product, or Python's
  \<^verbatim>\<open>None\<close>.
\<close>

record backend =
  products_get :: "string \<Rightarrow> exn + product"
  products_delete :: "string \<Rightarrow> exn + product"
  products_create :: "product option \<Rightarrow> exn + unit"
  products_list :: "string list \<Rightarrow> exn + product list"
  orders_get_order :: "int \<Rightarrow> exn + order"
  orders_list_orders :: "exn + order list"
  orders_create_order :: "order_detail list \<Rightarrow> exn + order"

text \<open>The remote calls a request issues, in the order it issues them.\<close>

datatype call =
    ProductsGet string
  | ProductsDelete string
  | ProductsCreate "product option"
  | ProductsList "string list"
  | OrdersGetOrder int
  | OrdersListOrders
  | OrdersCreateOrder "order_detail list"

type_synonym 'a rpc = "call list \<times> (exn + 'a)"

text \<open>
  The configuration (\<^verbatim>\<open>nameko.config\<close>) and the library functions the service calls:
  \<^verbatim>\<open>json.loads\<close> and \<^verbatim>\<open>json.dumps\<close>, and the \<^verbatim>\<open>load\<close>, \<^verbatim>\<open>dump\<close> and \<^verbatim>\<open>dumps\<close> of
  the three schemas. They are parameters: \<open>Inl\<close> of a parser or of a \<^verbatim>\<open>load\<close> is the
  exception it raises, whichever it is (\<^verbatim>\<open>json.loads\<close> raises a \<^verbatim>\<open>ValueError\<close> for text
  that is not JSON and a \<^verbatim>\<open>RecursionError\<close> for text nested too deeply). The data a
  \<^verbatim>\<open>load\<close> returns is \<open>None\<close> where the library returns Python's \<^verbatim>\<open>None\<close> and no
  error, as marshmallow 2 does for the document \<^verbatim>\<open>null\<close>.
\<close>

record env =
  config :: "string \<rightharpoonup> string"
  json_loads :: "string \<Rightarrow> exn + json"
  ProductSchema_load :: "json \<Rightarrow> exn + product option"
  CreateOrderSchema_load :: "json \<Rightarrow> exn + order_data option"
  CreateOrderSchema_dump :: "order_data \<Rightarrow> order_data"
  ProductSchema_dumps :: "product \<Rightarrow> string"
  GetOrderSchema_dumps :: "order \<Rightarrow> string"
  json_dumps_product_id :: "string \<Rightarrow> string"
  json_dumps_order_id :: "int \<Rightarrow> string"
  json_dumps_orders :: "order list \<Rightarrow> string"

text \<open>
  \<^verbatim>\<open>schema.loads(text).data\<close>: the text goes through \<^verbatim>\<open>json.loads\<close> and the document
  through the schema's \<^verbatim>\<open>load\<close>; an exception of either step reaches the caller. The
  comment in the source names two of them, \<^verbatim>\<open>ValueError\<close> for invalid JSON and
  \<^verbatim>\<open>ValidationError\<close> for invalid data.
\<close>

definition schema_loads ::
  "(string \<Rightarrow> exn + json) \<Rightarrow> (json \<Rightarrow> exn + 'a) \<Rightarrow> string \<Rightarrow> exn + 'a" where
  "schema_loads parse load text =
     (case parse text of
        Inl e \<Rightarrow> Inl e
      | Inr data \<Rightarrow> load data)"

section \<open>The service\<close>

subsection \<open>Products\<close>

definition get_product :: "env \<Rightarrow> backend \<Rightarrow> string \<Rightarrow> response rpc" where
  "get_product ev be pid =
     ([ProductsGet pid],
      case products_get be pid of
        Inl e \<Rightarrow> Inl e
      | Inr p \<Rightarrow> Inr \<lparr>body = ProductSchema_dumps ev p, mimetype = ''application/json''\<rparr>)"

definition remove_product :: "env \<Rightarrow> backend \<Rightarrow> string \<Rightarrow> response rpc" where
  "remove_product ev be pid =
     ([ProductsDelete pid],
      case products_delete be pid of
        Inl e \<Rightarrow> Inl e
      | Inr p \<Rightarrow> Inr \<lparr>body = ProductSchema_dumps ev p, mimetype = ''application/json''\<rparr>)"

text \<open>
  \<^verbatim>\<open>create_product\<close>: the \<^verbatim>\<open>except ValueError\<close> clause turns a \<^verbatim>\<open>ValueError\<close> of
  \<^verbatim>\<open>loads\<close> into \<^verbatim>\<open>BadRequest\<close>; every other exception of \<^verbatim>\<open>loads\<close> passes through.
  The loaded data goes to the catalog as it is; after that \<^verbatim>\<open>product_data['id']\<close> raises
  \<^verbatim>\<open>TypeError\<close> when the data is \<^verbatim>\<open>None\<close>.
\<close>

definition create_product :: "env \<Rightarrow> backend \<Rightarrow> string \<Rightarrow> response rpc" where
  "create_product ev be request_data =
     (case schema_loads (json_loads ev) (ProductSchema_load ev) request_data of
        Inl (ValueError exc) \<Rightarrow> ([], Inl (BadRequest (''Invalid json: '' @ exc)))
      | Inl e \<Rightarrow> ([], Inl e)
      | Inr product_data \<Rightarrow>
          ([ProductsCreate product_data],
           case products_create be product_data of
             Inl e \<Rightarrow> Inl e
           | Inr _ \<Rightarrow>
               (case product_data of
                  None \<Rightarrow> Inl (TypeError '''NoneType' object is not subscriptable'')
                | Some p \<Rightarrow>
                    Inr \<lparr>body = json_dumps_product_id ev (id_product p),
                         mimetype = ''application/json''\<rparr>)))"

subsection \<open>Helpers of the order operations\<close>

definition get_product_ids_from_order :: "'a order_data_scheme \<Rightarrow> string list" where
  "get_product_ids_from_order ord = map product_id (order_details ord)"

text \<open>The loop of \<^verbatim>\<open>_get_product_ids_from_orders\<close>: \<^verbatim>\<open>extend\<close> appends to the list.\<close>

fun get_product_ids_from_orders_loop ::
  "string list \<Rightarrow> 'a order_data_scheme list \<Rightarrow> string list" where
  "get_product_ids_from_orders_loop all_product_ids [] = all_product_ids"
| "get_product_ids_from_orders_loop all_product_ids (ord # orders) =
     get_product_ids_from_orders_loop
       (all_product_ids @ get_product_ids_from_order ord) orders"

definition get_product_ids_from_orders :: "'a order_data_scheme list \<Rightarrow> string list" where
  "get_product_ids_from_orders orders = get_product_ids_from_orders_loop [] orders"

definition list_products :: "backend \<Rightarrow> string list \<Rightarrow> product list rpc" where
  "list_products be product_ids = ([ProductsList product_ids], products_list be product_ids)"

text \<open>
  The dict comprehension \<^verbatim>\<open>{prod['id']: prod for prod in ...}\<close>: a later product replaces
  an earlier one with the same id.
\<close>

definition product_map_from :: "product list \<Rightarrow> (string \<rightharpoonup> product)" where
  "product_map_from prods = foldl (\<lambda>m prod. m(id_product prod \<mapsto> prod)) Map.empty prods"

text \<open>
  The loop of \<^verbatim>\<open>_fill_order_details_with_product\<close>. \<^verbatim>\<open>product_map[product_id]\<close> raises
  \<^verbatim>\<open>KeyError\<close> for a missing key, which ends the loop and the request.
\<close>

fun fill_items ::
  "string \<Rightarrow> (string \<rightharpoonup> product) \<Rightarrow> order_detail list \<Rightarrow> exn + order_detail list" where
  "fill_items image_root product_map [] = Inr []"
| "fill_items image_root product_map (item # items) =
     (case product_map (product_id item) of
        None \<Rightarrow> Inl (KeyError (product_id item))
      | Some p \<Rightarrow>
          (case fill_items image_root product_map items of
             Inl e \<Rightarrow> Inl e
           | Inr items' \<Rightarrow>
               Inr (item\<lparr>product_fld := Some p,
                         image_fld := Some (image_root @ ''/'' @ product_id item @ ''.jpg'')\<rparr>
                    # items')))"

definition fill_order_details_with_product ::
  "env \<Rightarrow> 'a order_data_scheme \<Rightarrow> (string \<rightharpoonup> product) \<Rightarrow> exn + 'a order_data_scheme" where
  "fill_order_details_with_product ev ord product_map =
     (case config ev ''PRODUCT_IMAGE_ROOT'' of
        None \<Rightarrow> Inl (KeyError ''PRODUCT_IMAGE_ROOT'')
      | Some image_root \<Rightarrow>
          (case fill_items image_root product_map (order_details ord) of
             Inl e \<Rightarrow> Inl e
           | Inr items \<Rightarrow> Inr (ord\<lparr>order_details := items\<rparr>)))"

subsection \<open>Reading orders\<close>

text \<open>\<^verbatim>\<open>_get_order\<close> (the name without the underscore is the endpoint's).\<close>

definition get_order_priv :: "env \<Rightarrow> backend \<Rightarrow> int \<Rightarrow> order rpc" where
  "get_order_priv ev be oid =
     (case orders_get_order be oid of
        Inl e \<Rightarrow> ([OrdersGetOrder oid], Inl e)
      | Inr ord \<Rightarrow>
          (let order_product_ids = get_product_ids_from_order ord;
               (tr, listed) = list_products be order_product_ids
           in case listed of
                Inl e \<Rightarrow> (OrdersGetOrder oid # tr, Inl e)
              | Inr prods \<Rightarrow>
                  (OrdersGetOrder oid # tr,
                   fill_order_details_with_product ev ord (product_map_from prods))))"

text \<open>
  The loop of \<^verbatim>\<open>_get_all_orders\<close>: \<^verbatim>\<open>order.update(...)\<close> with the filled order leaves
  the filled order in the list.
\<close>

fun fill_orders :: "env \<Rightarrow> (string \<rightharpoonup> product) \<Rightarrow> order list \<Rightarrow> exn + order list" where
  "fill_orders ev product_map [] = Inr []"
| "fill_orders ev product_map (ord # orders) =
     (case fill_order_details_with_product ev ord product_map of
        Inl e \<Rightarrow> Inl e
      | Inr ord' \<Rightarrow>
          (case fill_orders ev product_map orders of
             Inl e \<Rightarrow> Inl e
           | Inr orders' \<Rightarrow> Inr (ord' # orders')))"

definition get_all_orders :: "env \<Rightarrow> backend \<Rightarrow> order list rpc" where
  "get_all_orders ev be =
     (case orders_list_orders be of
        Inl e \<Rightarrow> ([OrdersListOrders], Inl e)
      | Inr orders \<Rightarrow>
          (let order_product_ids = get_product_ids_from_orders orders;
               (tr, listed) = list_products be order_product_ids
           in case listed of
                Inl e \<Rightarrow> (OrdersListOrders # tr, Inl e)
              | Inr prods \<Rightarrow>
                  (OrdersListOrders # tr, fill_orders ev (product_map_from prods) orders)))"

definition list_orders :: "env \<Rightarrow> backend \<Rightarrow> response rpc" where
  "list_orders ev be =
     (case get_all_orders ev be of
        (tr, Inl e) \<Rightarrow> (tr, Inl e)
      | (tr, Inr orders) \<Rightarrow>
          (tr, Inr \<lparr>body = json_dumps_orders ev orders, mimetype = ''application/json''\<rparr>))"

definition get_order :: "env \<Rightarrow> backend \<Rightarrow> int \<Rightarrow> response rpc" where
  "get_order ev be oid =
     (case get_order_priv ev be oid of
        (tr, Inl e) \<Rightarrow> (tr, Inl e)
      | (tr, Inr ord) \<Rightarrow>
          (tr, Inr \<lparr>body = GetOrderSchema_dumps ev ord, mimetype = ''application/json''\<rparr>))"

subsection \<open>Creating an order\<close>

text \<open>The validation loop of \<^verbatim>\<open>_create_order\<close>: the first unknown id raises.\<close>

fun check_order_details :: "string set \<Rightarrow> order_detail list \<Rightarrow> exn + unit" where
  "check_order_details valid_product_ids [] = Inr ()"
| "check_order_details valid_product_ids (item # items) =
     (if product_id item \<notin> valid_product_ids
      then Inl (ProductNotFound (''Product Id '' @ product_id item))
      else check_order_details valid_product_ids items)"

text \<open>\<^verbatim>\<open>_create_order\<close> (the name without the underscore is the endpoint's).\<close>

definition create_order_priv :: "env \<Rightarrow> backend \<Rightarrow> order_data \<Rightarrow> order rpc" where
  "create_order_priv ev be data =
     (let order_product_ids = get_product_ids_from_order data;
          (tr, listed) = list_products be order_product_ids
      in case listed of
           Inl e \<Rightarrow> (tr, Inl e)
         | Inr prods \<Rightarrow>
             (let valid_product_ids = set (map id_product prods)
              in case check_order_details valid_product_ids (order_details data) of
                   Inl e \<Rightarrow> (tr, Inl e)
                 | Inr _ \<Rightarrow>
                     (let serialized_data = CreateOrderSchema_dump ev data
                      in (tr @ [OrdersCreateOrder (order_details serialized_data)],
                          orders_create_order be (order_details serialized_data)))))"

text \<open>
  \<^verbatim>\<open>create_order\<close>. When the loaded data is \<^verbatim>\<open>None\<close>, \<^verbatim>\<open>_create_order\<close> raises
  \<^verbatim>\<open>TypeError\<close> at its first step, \<^verbatim>\<open>order['order_details']\<close>, before any remote call.
\<close>

definition create_order :: "env \<Rightarrow> backend \<Rightarrow> string \<Rightarrow> response rpc" where
  "create_order ev be request_data =
     (case schema_loads (json_loads ev) (CreateOrderSchema_load ev) request_data of
        Inl (ValueError exc) \<Rightarrow> ([], Inl (BadRequest (''Invalid json: '' @ exc)))
      | Inl e \<Rightarrow> ([], Inl e)
      | Inr None \<Rightarrow> ([], Inl (TypeError '''NoneType' object is not subscriptable''))
      | Inr (Some data) \<Rightarrow>
          (case create_order_priv ev be data of
             (tr, Inl e) \<Rightarrow> (tr, Inl e)
           | (tr, Inr ord) \<Rightarrow>
               (tr, Inr \<lparr>body = json_dumps_order_id ev (id_order ord),
                         mimetype = ''application/json''\<rparr>)))"

subsection \<open>The endpoints and their expected exceptions\<close>

datatype endpoint =
  GetProduct | RemoveProduct | CreateProduct | ListOrders | GetOrder | CreateOrder

text \<open>
  The \<^verbatim>\<open>expected_exceptions\<close> argument of each \<^verbatim>\<open>@http\<close> decorator, as the
  \<^verbatim>\<open>isinstance\<close> test on a raised exception.
\<close>

fun expected_exceptions :: "endpoint \<Rightarrow> exn \<Rightarrow> bool" where
  "expected_exceptions GetProduct (ProductNotFound _) = True"
| "expected_exceptions RemoveProduct (ProductNotFound _) = True"
| "expected_exceptions CreateProduct (ValidationError _) = True"
| "expected_exceptions CreateProduct (BadRequest _) = True"
| "expected_exceptions GetOrder (OrderNotFound _) = True"
| "expected_exceptions CreateOrder (ValidationError _) = True"
| "expected_exceptions CreateOrder (ProductNotFound _) = True"
| "expected_exceptions CreateOrder (BadRequest _) = True"
| "expected_exceptions _ _ = False"

datatype outcome = Success | ClientError | ServerFault

text \<open>
  Modelled from the spec: the \<^verbatim>\<open>http\<close> entrypoint of \<^verbatim>\<open>gateway.entrypoints\<close> is not
  part of the sources. Section 7 of the specification: an expected exception is caught at
  the operation boundary and becomes a client-facing response; any other exception
  propagates as a server fault.
\<close>

definition http_outcome :: "endpoint \<Rightarrow> exn + 'a \<Rightarrow> outcome" where
  "http_outcome ep result =
     (case result of
        Inr _ \<Rightarrow> Success
      | Inl e \<Rightarrow> if expected_exceptions ep e then ClientError else ServerFault)"

subsection \<open>Reading a trace of remote calls\<close>

fun is_products_list :: "call \<Rightarrow> bool" where
  "is_products_list (ProductsList _) = True"
| "is_products_list _ = False"

fun is_orders_create_order :: "call \<Rightarrow> bool" where
  "is_orders_create_order (OrdersCreateOrder _) = True"
| "is_orders_create_order _ = False"

section \<open>Example inputs\<close>

text \<open>
  Concrete products, orders, a configuration and a catalog that knows two products, after
  the examples in the docstrings of the service. The parser of the example knows two
  documents, \<^verbatim>\<open>{}\<close> and \<^verbatim>\<open>null\<close>; its schemas reject the first for its missing fields
  and load the second as \<^verbatim>\<open>None\<close>.
\<close>

definition the_odyssey :: product where
  "the_odyssey = \<lparr>id_product = ''the_odyssey'', title = ''The Odyssey'',
     passenger_capacity = 101, maximum_speed = 5, in_stock = 10\<rparr>"

definition the_enigma :: product where
  "the_enigma = \<lparr>id_product = ''the_enigma'', title = ''The Enigma'',
     passenger_capacity = 4, maximum_speed = 120, in_stock = 2\<rparr>"

definition line_item :: "string \<Rightarrow> order_detail" where
  "line_item pid = \<lparr>product_id = pid, price = ''99.99'', quantity = 1,
     product_fld = None, image_fld = None\<rparr>"

definition order_1 :: order where
  "order_1 = \<lparr>order_details = [line_item ''the_odyssey'', line_item ''the_odyssey''],
     id_order = 1\<rparr>"

definition order_2 :: order where
  "order_2 = \<lparr>order_details = [], id_order = 2\<rparr>"

definition order_3 :: order where
  "order_3 = \<lparr>order_details = [line_item ''the_enigma'', line_item ''ghost''],
     id_order = 3\<rparr>"

definition valid_data :: order_data where
  "valid_data = \<lparr>order_details = [line_item ''the_odyssey'', line_item ''the_enigma'']\<rparr>"

definition ghost_data :: order_data where
  "ghost_data = \<lparr>order_details =
     [line_item ''the_odyssey'', line_item ''ghost'', line_item ''phantom'']\<rparr>"

definition example_env :: env where
  "example_env = \<lparr>
     config = [''PRODUCT_IMAGE_ROOT'' \<mapsto> ''http://example.com/img''],
     json_loads =
       (\<lambda>text. if text = ''{}'' then Inr (JObj [])
               else if text = ''null'' then Inr JNull
               else Inl (ValueError ''Expecting value'')),
     ProductSchema_load =
       (\<lambda>data. if data = JNull then Inr None
               else Inl (ValidationError ''id: Missing data for required field.'')),
     CreateOrderSchema_load =
       (\<lambda>data. if data = JNull then Inr None
               else Inl (ValidationError ''order_details: Missing data for required field.'')),
     CreateOrderSchema_dump = (\<lambda>data. data),
     ProductSchema_dumps = id_product,
     GetOrderSchema_dumps = (\<lambda>ord. ''order''),
     json_dumps_product_id = (\<lambda>pid. pid),
     json_dumps_order_id = (\<lambda>oid. ''id''),
     json_dumps_orders = (\<lambda>orders. ''orders'')\<rparr>"

definition example_backend :: backend where
  "example_backend = \<lparr>
     products_get =
       (\<lambda>pid. if pid = ''the_odyssey'' then Inr the_odyssey else Inl (ProductNotFound pid)),
     products_delete =
       (\<lambda>pid. if pid = ''the_odyssey'' then Inr the_odyssey else Inl (ProductNotFound pid)),
     products_create = (\<lambda>p. Inr ()),
     products_list =
       (\<lambda>ids. Inr (filter (\<lambda>p. id_product p \<in> set ids) [the_odyssey, the_enigma])),
     orders_get_order =
       (\<lambda>oid. if oid = 1 then Inr order_1 else Inl (OrderNotFound ''Order not found'')),
     orders_list_orders = Inr [order_1, order_2],
     orders_create_order = (\<lambda>items. Inr \<lparr>order_details = items, id_order = 1234\<rparr>)\<rparr>"

section \<open>Properties\<close>

subsection \<open>Helper facts\<close>

lemma check_order_details_find:
  "check_order_details valid items =
     (case find (\<lambda>pid. pid \<notin> valid) (map product_id items) of
        None \<Rightarrow> Inr ()
      | Some pid \<Rightarrow> Inl (ProductNotFound (''Product Id '' @ pid)))"
  by (induction items) simp_all

lemmas example_defs = the_odyssey_def the_enigma_def line_item_def order_1_def order_2_def
  order_3_def valid_data_def ghost_data_def example_env_def example_backend_def

lemma get_product_ids_from_orders_loop_concat:
  "get_product_ids_from_orders_loop acc orders =
     acc @ concat (map get_product_ids_from_order orders)"
  by (induction orders arbitrary: acc) simp_all

lemma get_product_ids_from_orders_concat:
  "get_product_ids_from_orders orders = concat (map get_product_ids_from_order orders)"
  by (simp add: get_product_ids_from_orders_def get_product_ids_from_orders_loop_concat)

lemma dom_foldl_update:
  "dom (foldl (\<lambda>m prod. m(id_product prod \<mapsto> prod)) m0 prods) =
     dom m0 \<union> id_product ` set prods"
  by (induction prods arbitrary: m0) auto

lemma dom_product_map_from: "dom (product_map_from prods) = id_product ` set prods"
  by (simp add: product_map_from_def dom_foldl_update)

text \<open>
  The loop of the enrichment in closed form: it stops at the first line item whose id has no
  entry, and otherwise rewrites the two added fields of every line item.
\<close>

lemma fill_items_find:
  "fill_items image_root product_map items =
     (case find (\<lambda>pid. product_map pid = None) (map product_id items) of
        Some pid \<Rightarrow> Inl (KeyError pid)
      | None \<Rightarrow>
          Inr (map (\<lambda>item. item\<lparr>product_fld := product_map (product_id item),
                 image_fld := Some (image_root @ ''/'' @ product_id item @ ''.jpg'')\<rparr>) items))"
  by (induction items) (auto split: option.splits)

subsection \<open>Validation of an order-creation payload\<close>

text \<open>
  C1. When the batched catalog lookup returns, \<^verbatim>\<open>_create_order\<close> goes on to the ledger
  (validation succeeded) when every line item has a product id among the returned ids;
  otherwise it raises \<^verbatim>\<open>ProductNotFound\<close> whose message carries the id of the first line
  item, in the order of the payload, whose id is not among them (\<open>find\<close> returns the
  first element that satisfies the test).
\<close>

theorem create_order_priv_first_missing:
  assumes listed: "products_list be (get_product_ids_from_order data) = Inr prods"
  shows "snd (create_order_priv ev be data) =
     (case find (\<lambda>pid. pid \<notin> set (map id_product prods))
             (map product_id (order_details data)) of
        None \<Rightarrow> orders_create_order be (order_details (CreateOrderSchema_dump ev data))
      | Some pid \<Rightarrow> Inl (ProductNotFound (''Product Id '' @ pid)))
   \<and> (set (map product_id (order_details data)) \<subseteq> set (map id_product prods) \<longrightarrow>
        create_order_priv ev be data =
          ([ProductsList (get_product_ids_from_order data),
            OrdersCreateOrder (order_details (CreateOrderSchema_dump ev data))],
           orders_create_order be (order_details (CreateOrderSchema_dump ev data))))"
proof (intro conjI impI)
  show "snd (create_order_priv ev be data) =
     (case find (\<lambda>pid. pid \<notin> set (map id_product prods))
             (map product_id (order_details data)) of
        None \<Rightarrow> orders_create_order be (order_details (CreateOrderSchema_dump ev data))
      | Some pid \<Rightarrow> Inl (ProductNotFound (''Product Id '' @ pid)))"
    using listed
    by (simp add: create_order_priv_def list_products_def check_order_details_find Let_def
        split: option.splits)
next
  assume "set (map product_id (order_details data)) \<subseteq> set (map id_product prods)"
  then have "find (\<lambda>pid. pid \<notin> set (map id_product prods))
      (map product_id (order_details data)) = None"
    by (auto simp: find_None_iff)
  then have "check_order_details (set (map id_product prods)) (order_details data) = Inr ()"
    by (simp add: check_order_details_find)
  with listed show "create_order_priv ev be data =
      ([ProductsList (get_product_ids_from_order data),
        OrdersCreateOrder (order_details (CreateOrderSchema_dump ev data))],
       orders_create_order be (order_details (CreateOrderSchema_dump ev data)))"
    by (simp add: create_order_priv_def list_products_def Let_def)
qed

theorem create_order_priv_first_missing_witness:
  "snd (create_order_priv example_env example_backend valid_data) =
     Inr \<lparr>order_details = [line_item ''the_odyssey'', line_item ''the_enigma''],
          id_order = 1234\<rparr>
   \<and> snd (create_order_priv example_env example_backend ghost_data) =
     Inl (ProductNotFound ''Product Id ghost'')"
proof -
  have v: "products_list example_backend (get_product_ids_from_order valid_data) =
      Inr [the_odyssey, the_enigma]"
    by (simp add: example_defs get_product_ids_from_order_def)
  have g: "products_list example_backend (get_product_ids_from_order ghost_data) =
      Inr [the_odyssey]"
    by (simp add: example_defs get_product_ids_from_order_def)
  have cov: "set (map product_id (order_details valid_data))
      \<subseteq> set (map id_product [the_odyssey, the_enigma])"
    by (simp add: example_defs)
  from create_order_priv_first_missing [OF v, of example_env] cov
  have 1: "snd (create_order_priv example_env example_backend valid_data) =
      orders_create_order example_backend
        (order_details (CreateOrderSchema_dump example_env valid_data))"
    by simp
  from create_order_priv_first_missing [OF g, of example_env]
  have 2: "snd (create_order_priv example_env example_backend ghost_data) =
      Inl (ProductNotFound ''Product Id ghost'')"
    by (simp add: example_defs)
  from 1 2 show ?thesis by (simp add: example_defs)
qed

subsection \<open>More helper facts on the enrichment loops\<close>

lemma find_append_case:
  "find P (xs @ ys) = (case find P xs of None \<Rightarrow> find P ys | Some x \<Rightarrow> Some x)"
  by (induction xs) simp_all

lemma fill_order_closed:
  "config ev ''PRODUCT_IMAGE_ROOT'' = Some image_root \<Longrightarrow>
   fill_order_details_with_product ev ord product_map =
     (case find (\<lambda>pid. product_map pid = None) (get_product_ids_from_order ord) of
        Some pid \<Rightarrow> Inl (KeyError pid)
      | None \<Rightarrow>
          Inr (ord\<lparr>order_details :=
                 map (\<lambda>item. item\<lparr>product_fld := product_map (product_id item),
                        image_fld := Some (image_root @ ''/'' @ product_id item @ ''.jpg'')\<rparr>)
                   (order_details ord)\<rparr>))"
  by (simp add: fill_order_details_with_product_def fill_items_find
      get_product_ids_from_order_def split: option.splits)

lemma fill_orders_closed:
  "config ev ''PRODUCT_IMAGE_ROOT'' = Some image_root \<Longrightarrow>
   fill_orders ev product_map orders =
     (case find (\<lambda>pid. product_map pid = None) (get_product_ids_from_orders orders) of
        Some pid \<Rightarrow> Inl (KeyError pid)
      | None \<Rightarrow>
          Inr (map (\<lambda>ord. ord\<lparr>order_details :=
                 map (\<lambda>item. item\<lparr>product_fld := product_map (product_id item),
                        image_fld := Some (image_root @ ''/'' @ product_id item @ ''.jpg'')\<rparr>)
                   (order_details ord)\<rparr>) orders))"
  by (induction orders)
     (simp_all add: get_product_ids_from_orders_concat fill_order_closed find_append_case
       split: option.splits)

lemma find_None_subset:
  "find (\<lambda>pid. m pid = None) ids = None \<longleftrightarrow> set ids \<subseteq> dom m"
  by (induction ids) (auto simp: domIff)

lemma find_Some_missing:
  "find (\<lambda>pid. m pid = None) ids = Some pid \<Longrightarrow> pid \<in> set ids \<and> m pid = None"
  by (induction ids) (auto split: if_splits)

lemma update_no_items:
  "order_details ord = [] \<Longrightarrow> ord\<lparr>order_details := map f (order_details ord)\<rparr> = ord"
  by simp

lemma map_update_no_items:
  assumes "\<forall>ord \<in> set orders. order_details ord = []"
  shows "map (\<lambda>ord. ord\<lparr>order_details := map f (order_details ord)\<rparr>) orders = orders"
proof (rule map_idI)
  fix ord assume "ord \<in> set orders"
  with assms have "order_details ord = []" by blast
  then show "ord\<lparr>order_details := map f (order_details ord)\<rparr> = ord"
    by (rule update_no_items)
qed

lemma fill_orders_no_items:
  assumes "config ev ''PRODUCT_IMAGE_ROOT'' = Some image_root"
    and "get_product_ids_from_orders orders = []"
  shows "fill_orders ev product_map orders = Inr orders"
proof -
  from assms(2) have empty: "\<forall>ord \<in> set orders. order_details ord = []"
    by (simp add: get_product_ids_from_orders_concat get_product_ids_from_order_def)
  have "fill_orders ev product_map orders =
      (case find (\<lambda>pid. product_map pid = None) [] of
        Some pid \<Rightarrow> Inl (KeyError pid)
      | None \<Rightarrow>
          Inr (map (\<lambda>ord. ord\<lparr>order_details :=
                 map (\<lambda>item. item\<lparr>product_fld := product_map (product_id item),
                        image_fld := Some (image_root @ ''/'' @ product_id item @ ''.jpg'')\<rparr>)
                   (order_details ord)\<rparr>) orders))"
    using fill_orders_closed [OF assms(1), of product_map orders] by (simp only: assms(2))
  then show ?thesis by (simp only: map_update_no_items [OF empty] find.simps option.case)
qed

subsection \<open>The argument of the batched catalog lookup\<close>

text \<open>
  C2, as stated, fails. The list handed to \<^verbatim>\<open>products_rpc.list\<close> is built by a list
  comprehension and \<^verbatim>\<open>extend\<close>; nothing removes repetitions. Two line items with the same
  product id, in one order read from the ledger or in one order-creation payload, give a
  lookup argument that names the id twice.
\<close>

theorem lookup_argument_counterexample:
  "fst (get_all_orders example_env example_backend) =
     [OrdersListOrders, ProductsList [''the_odyssey'', ''the_odyssey'']]
   \<and> fst (create_order_priv example_env example_backend
          \<lparr>order_details = [line_item ''the_enigma'', line_item ''the_enigma'']\<rparr>) =
     [ProductsList [''the_enigma'', ''the_enigma''], 
      OrdersCreateOrder [line_item ''the_enigma'', line_item ''the_enigma'']]
   \<and> \<not> distinct [''the_odyssey'', ''the_odyssey'']
   \<and> \<not> distinct [''the_enigma'', ''the_enigma'']"
  by (simp add: example_defs get_all_orders_def create_order_priv_def list_products_def
      get_product_ids_from_orders_def get_product_ids_from_order_def Let_def)

text \<open>
  C2, amended. Reading all orders, reading one order and validating an order-creation
  payload each issue exactly one catalog lookup, and its argument is the list of the
  product ids of all line items, in the order of the orders and of their line items, one
  entry per line item (so a repeated id is repeated in the argument).
\<close>

theorem lookup_argument_is_id_list:
  "(orders_list_orders be = Inr orders \<longrightarrow>
      fst (get_all_orders ev be) =
        [OrdersListOrders,
         ProductsList (concat (map (\<lambda>ord. map product_id (order_details ord)) orders))])
   \<and> (orders_get_order be oid = Inr ord \<longrightarrow>
      fst (get_order_priv ev be oid) =
        [OrdersGetOrder oid, ProductsList (map product_id (order_details ord))])
   \<and> filter is_products_list (fst (create_order_priv ev be data)) =
        [ProductsList (map product_id (order_details data))]"
proof -
  have ids: "get_product_ids_from_orders orders =
      concat (map (\<lambda>ord. map product_id (order_details ord)) orders)" for orders :: "order list"
    by (induction orders)
       (simp_all add: get_product_ids_from_orders_concat get_product_ids_from_order_def)
  have all: "orders_list_orders be = Inr orders \<Longrightarrow>
      fst (get_all_orders ev be) =
        [OrdersListOrders,
         ProductsList (concat (map (\<lambda>ord. map product_id (order_details ord)) orders))]"
    by (simp add: get_all_orders_def list_products_def ids Let_def split: sum.splits)
  have one: "orders_get_order be oid = Inr ord \<Longrightarrow>
      fst (get_order_priv ev be oid) =
        [OrdersGetOrder oid, ProductsList (map product_id (order_details ord))]"
    by (simp add: get_order_priv_def list_products_def get_product_ids_from_order_def Let_def
        split: sum.splits)
  have create: "filter is_products_list (fst (create_order_priv ev be data)) =
        [ProductsList (map product_id (order_details data))]"
    by (simp add: create_order_priv_def list_products_def get_product_ids_from_order_def Let_def
        split: sum.splits)
  from all one create show ?thesis by blast
qed

theorem lookup_argument_is_id_list_witness:
  "fst (get_all_orders example_env example_backend) =
     [OrdersListOrders, ProductsList [''the_odyssey'', ''the_odyssey'']]
   \<and> fst (get_order_priv example_env example_backend 1) =
     [OrdersGetOrder 1, ProductsList [''the_odyssey'', ''the_odyssey'']]"
  using lookup_argument_is_id_list
    [of example_backend "[order_1, order_2]" example_env 1 order_1]
  by (simp add: example_defs)

subsection \<open>Enrichment when no product id is referenced\<close>

text \<open>
  C3, as stated, fails. \<^verbatim>\<open>_get_all_orders\<close> has no branch on an empty id list: for an
  empty list of orders, and for an order without line items, it still calls the catalog,
  with the empty list as argument. The orders do come back unchanged.
\<close>

theorem empty_ids_lookup_counterexample:
  "get_all_orders example_env (example_backend\<lparr>orders_list_orders := Inr []\<rparr>) =
     ([OrdersListOrders, ProductsList []], Inr [])
   \<and> get_all_orders example_env (example_backend\<lparr>orders_list_orders := Inr [order_2]\<rparr>) =
     ([OrdersListOrders, ProductsList []], Inr [order_2])"
  by (simp add: example_defs get_all_orders_def list_products_def
      get_product_ids_from_orders_def get_product_ids_from_order_def Let_def
      fill_order_details_with_product_def product_map_from_def)

text \<open>
  C3, amended. When the orders read from the ledger reference no product id, enrichment
  issues exactly one catalog lookup, with the empty list of ids, and, when that lookup
  returns and the image root is configured, returns the orders unchanged.
\<close>

theorem empty_ids_one_lookup_orders_unchanged:
  assumes "orders_list_orders be = Inr orders"
    and "get_product_ids_from_orders orders = []"
    and "products_list be [] = Inr prods"
    and "config ev ''PRODUCT_IMAGE_ROOT'' = Some image_root"
  shows "get_all_orders ev be = ([OrdersListOrders, ProductsList []], Inr orders)"
  by (simp add: get_all_orders_def list_products_def Let_def assms(1,2,3)
      fill_orders_no_items [OF assms(4) assms(2)])

theorem empty_ids_one_lookup_orders_unchanged_witness:
  "get_all_orders example_env (example_backend\<lparr>orders_list_orders := Inr [order_2]\<rparr>) =
     ([OrdersListOrders, ProductsList []], Inr [order_2])"
  using empty_ids_one_lookup_orders_unchanged
    [of "example_backend\<lparr>orders_list_orders := Inr [order_2]\<rparr>" "[order_2]" "[]"
        example_env "''http://example.com/img''"]
  by (simp add: example_defs get_product_ids_from_orders_def get_product_ids_from_order_def)

subsection \<open>Enrichment with and without a covering product map\<close>

lemma fill_order_covered:
  assumes "config ev ''PRODUCT_IMAGE_ROOT'' = Some image_root"
    and "set (get_product_ids_from_order ord) \<subseteq> dom product_map"
  shows "fill_order_details_with_product ev ord product_map =
     Inr (ord\<lparr>order_details :=
            map (\<lambda>item. item\<lparr>product_fld := product_map (product_id item),
                   image_fld := Some (image_root @ ''/'' @ product_id item @ ''.jpg'')\<rparr>)
              (order_details ord)\<rparr>)"
proof -
  from assms(2) have "find (\<lambda>pid. product_map pid = None) (get_product_ids_from_order ord) = None"
    by (simp only: find_None_subset)
  then show ?thesis by (simp add: fill_order_closed [OF assms(1)])
qed

lemma fill_orders_covered:
  assumes "config ev ''PRODUCT_IMAGE_ROOT'' = Some image_root"
    and "set (get_product_ids_from_orders orders) \<subseteq> dom product_map"
  shows "fill_orders ev product_map orders =
     Inr (map (\<lambda>ord. ord\<lparr>order_details :=
            map (\<lambda>item. item\<lparr>product_fld := product_map (product_id item),
                   image_fld := Some (image_root @ ''/'' @ product_id item @ ''.jpg'')\<rparr>)
              (order_details ord)\<rparr>) orders)"
proof -
  from assms(2) have "find (\<lambda>pid. product_map pid = None) (get_product_ids_from_orders orders) = None"
    by (simp only: find_None_subset)
  then show ?thesis by (simp add: fill_orders_closed [OF assms(1)])
qed

lemma fill_order_missing:
  assumes "config ev ''PRODUCT_IMAGE_ROOT'' = Some image_root"
    and "\<not> set (get_product_ids_from_order ord) \<subseteq> dom product_map"
  shows "\<exists>pid. pid \<in> set (get_product_ids_from_order ord) \<and> product_map pid = None
           \<and> fill_order_details_with_product ev ord product_map = Inl (KeyError pid)"
proof -
  from assms(2) have "find (\<lambda>pid. product_map pid = None) (get_product_ids_from_order ord) \<noteq> None"
    by (simp only: find_None_subset not_False_eq_True)
  then obtain pid where
    f: "find (\<lambda>pid. product_map pid = None) (get_product_ids_from_order ord) = Some pid"
    by blast
  from find_Some_missing [OF f] have "pid \<in> set (get_product_ids_from_order ord)"
    and "product_map pid = None" by simp_all
  moreover have "fill_order_details_with_product ev ord product_map = Inl (KeyError pid)"
    using f by (simp add: fill_order_closed [OF assms(1)])
  ultimately show ?thesis by blast
qed

lemma fill_orders_missing:
  assumes "config ev ''PRODUCT_IMAGE_ROOT'' = Some image_root"
    and "\<not> set (get_product_ids_from_orders orders) \<subseteq> dom product_map"
  shows "\<exists>pid. pid \<in> set (get_product_ids_from_orders orders) \<and> product_map pid = None
           \<and> fill_orders ev product_map orders = Inl (KeyError pid)"
proof -
  from assms(2) have "find (\<lambda>pid. product_map pid = None) (get_product_ids_from_orders orders) \<noteq> None"
    by (simp only: find_None_subset not_False_eq_True)
  then obtain pid where
    f: "find (\<lambda>pid. product_map pid = None) (get_product_ids_from_orders orders) = Some pid"
    by blast
  from find_Some_missing [OF f] have "pid \<in> set (get_product_ids_from_orders orders)"
    and "product_map pid = None" by simp_all
  moreover have "fill_orders ev product_map orders = Inl (KeyError pid)"
    using f by (simp add: fill_orders_closed [OF assms(1)])
  ultimately show ?thesis by blast
qed

lemma example_config: "config example_env ''PRODUCT_IMAGE_ROOT'' = Some ''http://example.com/img''"
  by (simp add: example_env_def)

subsection \<open>No ledger call after a failed validation\<close>

text \<open>
  C4. When the catalog lookup returns and some line item of the payload has a product id
  that is not among the returned ids, \<^verbatim>\<open>_create_order\<close> raises \<^verbatim>\<open>ProductNotFound\<close> after
  the one catalog lookup and never calls \<^verbatim>\<open>orders_rpc.create_order\<close>; the endpoint
  \<^verbatim>\<open>create_order\<close> passes the exception on, and since it is one of the endpoint's expected
  exceptions the request ends as a client error.
\<close>

theorem unknown_product_no_ledger_call:
  assumes listed: "products_list be (get_product_ids_from_order data) = Inr prods"
    and item: "item \<in> set (order_details data)"
    and unknown: "product_id item \<notin> id_product ` set prods"
  shows "(\<exists>pid. create_order_priv ev be data =
            ([ProductsList (get_product_ids_from_order data)],
             Inl (ProductNotFound (''Product Id '' @ pid))))
       \<and> filter is_orders_create_order (fst (create_order_priv ev be data)) = []
       \<and> (schema_loads (json_loads ev) (CreateOrderSchema_load ev) text = Inr (Some data) \<longrightarrow>
            (\<exists>pid. snd (create_order ev be text) =
               Inl (ProductNotFound (''Product Id '' @ pid)))
            \<and> filter is_orders_create_order (fst (create_order ev be text)) = []
            \<and> http_outcome CreateOrder (snd (create_order ev be text)) = ClientError)"
proof -
  from item unknown
  have "find (\<lambda>pid. pid \<notin> set (map id_product prods)) (map product_id (order_details data))
          \<noteq> None"
    by (auto simp: find_None_iff)
  then obtain pid where
    "find (\<lambda>pid. pid \<notin> set (map id_product prods)) (map product_id (order_details data))
       = Some pid"
    by blast
  then have chk: "check_order_details (set (map id_product prods)) (order_details data) =
      Inl (ProductNotFound (''Product Id '' @ pid))"
    by (simp add: check_order_details_find)
  have priv: "create_order_priv ev be data =
      ([ProductsList (get_product_ids_from_order data)],
       Inl (ProductNotFound (''Product Id '' @ pid)))"
    using listed chk by (simp add: create_order_priv_def list_products_def Let_def)
  have ep: "schema_loads (json_loads ev) (CreateOrderSchema_load ev) text = Inr (Some data) \<Longrightarrow>
      create_order ev be text =
        ([ProductsList (get_product_ids_from_order data)],
         Inl (ProductNotFound (''Product Id '' @ pid)))"
    by (simp add: create_order_def priv)
  show ?thesis
    using priv ep by (auto simp: http_outcome_def)
qed

theorem unknown_product_no_ledger_call_witness:
  "filter is_orders_create_order
     (fst (create_order_priv
        (example_env\<lparr>CreateOrderSchema_load := \<lambda>data. Inr (Some ghost_data)\<rparr>)
        example_backend ghost_data)) = []
   \<and> filter is_orders_create_order
     (fst (create_order (example_env\<lparr>CreateOrderSchema_load := \<lambda>data. Inr (Some ghost_data)\<rparr>)
        example_backend ''{}'')) = []
   \<and> http_outcome CreateOrder
       (snd (create_order (example_env\<lparr>CreateOrderSchema_load := \<lambda>data. Inr (Some ghost_data)\<rparr>)
          example_backend ''{}'')) = ClientError"
proof -
  let ?ev = "example_env\<lparr>CreateOrderSchema_load := \<lambda>data. Inr (Some ghost_data)\<rparr>"
  have listed: "products_list example_backend (get_product_ids_from_order ghost_data) =
      Inr [the_odyssey]"
    by (simp add: example_defs get_product_ids_from_order_def)
  have item: "line_item ''ghost'' \<in> set (order_details ghost_data)"
    by (simp add: example_defs)
  have unknown: "product_id (line_item ''ghost'') \<notin> id_product ` set [the_odyssey]"
    by (simp add: example_defs)
  have loads: "schema_loads (json_loads ?ev) (CreateOrderSchema_load ?ev) ''{}'' =
      Inr (Some ghost_data)"
    by (simp add: example_defs schema_loads_def)
  from unknown_product_no_ledger_call [OF listed item unknown, of ?ev "''{}''"] loads
  show ?thesis by blast
qed

subsection \<open>What enrichment leaves alone\<close>

text \<open>
  C5. With the image root configured and a product map that has an entry for every
  product id referenced, enriching one order, and enriching a list of orders, succeeds and
  keeps the number and the order of the orders and of the line items of each order; the
  product id, price and quantity of every line item, and every field of an order other than
  its line items (its id), are unchanged. Only \<^verbatim>\<open>product\<close> and \<^verbatim>\<open>image\<close> are written.
\<close>

theorem enrichment_only_adds_fields:
  assumes cfg: "config ev ''PRODUCT_IMAGE_ROOT'' = Some image_root"
  shows "(set (get_product_ids_from_order ord) \<subseteq> dom product_map \<longrightarrow>
           (\<exists>ord'. fill_order_details_with_product ev ord product_map = Inr ord'
              \<and> order_data.more ord' = order_data.more ord
              \<and> length (order_details ord') = length (order_details ord)
              \<and> map product_id (order_details ord') = map product_id (order_details ord)
              \<and> map price (order_details ord') = map price (order_details ord)
              \<and> map quantity (order_details ord') = map quantity (order_details ord)))
       \<and> (set (get_product_ids_from_orders orders) \<subseteq> dom product_map \<longrightarrow>
           (\<exists>orders'. fill_orders ev product_map orders = Inr orders'
              \<and> length orders' = length orders
              \<and> map id_order orders' = map id_order orders
              \<and> map (\<lambda>ord. map product_id (order_details ord)) orders' =
                  map (\<lambda>ord. map product_id (order_details ord)) orders
              \<and> map (\<lambda>ord. map price (order_details ord)) orders' =
                  map (\<lambda>ord. map price (order_details ord)) orders
              \<and> map (\<lambda>ord. map quantity (order_details ord)) orders' =
                  map (\<lambda>ord. map quantity (order_details ord)) orders))"
proof (intro conjI impI)
  assume "set (get_product_ids_from_order ord) \<subseteq> dom product_map"
  from fill_order_covered [OF cfg this]
  show "\<exists>ord'. fill_order_details_with_product ev ord product_map = Inr ord'
      \<and> order_data.more ord' = order_data.more ord
      \<and> length (order_details ord') = length (order_details ord)
      \<and> map product_id (order_details ord') = map product_id (order_details ord)
      \<and> map price (order_details ord') = map price (order_details ord)
      \<and> map quantity (order_details ord') = map quantity (order_details ord)"
    by (simp add: comp_def)
next
  assume "set (get_product_ids_from_orders orders) \<subseteq> dom product_map"
  from fill_orders_covered [OF cfg this]
  show "\<exists>orders'. fill_orders ev product_map orders = Inr orders'
      \<and> length orders' = length orders
      \<and> map id_order orders' = map id_order orders
      \<and> map (\<lambda>ord. map product_id (order_details ord)) orders' =
          map (\<lambda>ord. map product_id (order_details ord)) orders
      \<and> map (\<lambda>ord. map price (order_details ord)) orders' =
          map (\<lambda>ord. map price (order_details ord)) orders
      \<and> map (\<lambda>ord. map quantity (order_details ord)) orders' =
          map (\<lambda>ord. map quantity (order_details ord)) orders"
    by (simp add: comp_def)
qed

theorem enrichment_only_adds_fields_witness:
  "(\<exists>ord'. fill_order_details_with_product example_env order_1
              [''the_odyssey'' \<mapsto> the_odyssey] = Inr ord'
      \<and> order_data.more ord' = order_data.more order_1
      \<and> length (order_details ord') = length (order_details order_1)
      \<and> map product_id (order_details ord') = map product_id (order_details order_1)
      \<and> map price (order_details ord') = map price (order_details order_1)
      \<and> map quantity (order_details ord') = map quantity (order_details order_1))
   \<and> (\<exists>orders'. fill_orders example_env [''the_odyssey'' \<mapsto> the_odyssey]
              [order_1, order_2] = Inr orders'
      \<and> length orders' = length [order_1, order_2]
      \<and> map id_order orders' = map id_order [order_1, order_2])"
proof -
  have cov1: "set (get_product_ids_from_order order_1) \<subseteq> dom [''the_odyssey'' \<mapsto> the_odyssey]"
    by (simp add: example_defs get_product_ids_from_order_def)
  have cov2: "set (get_product_ids_from_orders [order_1, order_2])
      \<subseteq> dom [''the_odyssey'' \<mapsto> the_odyssey]"
    by (simp add: example_defs get_product_ids_from_orders_def get_product_ids_from_order_def)
  from enrichment_only_adds_fields
    [OF example_config, of order_1 "[''the_odyssey'' \<mapsto> the_odyssey]" "[order_1, order_2]"]
    cov1 cov2
  show ?thesis by blast
qed

subsection \<open>The image URL\<close>

text \<open>
  C7, as stated, fails. The format string of the source is \<^verbatim>\<open>'{}/{}.jpg'\<close>: between the
  image root and the product id it puts a slash, so the image is not the concatenation of
  the image root, the product id and \<^verbatim>\<open>.jpg\<close>.
\<close>

theorem image_url_counterexample:
  "snd (get_order_priv example_env example_backend 1) =
     Inr \<lparr>order_details =
            [(line_item ''the_odyssey'')\<lparr>product_fld := Some the_odyssey,
               image_fld := Some ''http://example.com/img/the_odyssey.jpg''\<rparr>,
             (line_item ''the_odyssey'')\<lparr>product_fld := Some the_odyssey,
               image_fld := Some ''http://example.com/img/the_odyssey.jpg''\<rparr>],
          id_order = 1\<rparr>
   \<and> ''http://example.com/img/the_odyssey.jpg'' \<noteq>
       ''http://example.com/img'' @ ''the_odyssey'' @ ''.jpg''"
  by (simp add: example_defs get_order_priv_def list_products_def get_product_ids_from_order_def
      fill_order_details_with_product_def product_map_from_def Let_def)

text \<open>
  C7, amended. For every enriched line item the \<^verbatim>\<open>image\<close> field is the image root, a
  slash, the product id of the line item and \<^verbatim>\<open>.jpg\<close>, concatenated; in particular it
  ends with the product id followed by \<^verbatim>\<open>.jpg\<close>.
\<close>

theorem image_url_with_separator:
  assumes cfg: "config ev ''PRODUCT_IMAGE_ROOT'' = Some image_root"
    and ok: "fill_order_details_with_product ev ord product_map = Inr ord'"
  shows "map image_fld (order_details ord') =
           map (\<lambda>item. Some (image_root @ ''/'' @ product_id item @ ''.jpg''))
             (order_details ord)
       \<and> list_all (\<lambda>item. \<exists>img. image_fld item = Some img
                       \<and> suffix (product_id item @ ''.jpg'') img) (order_details ord')"
proof -
  have "find (\<lambda>pid. product_map pid = None) (get_product_ids_from_order ord) = None"
    using ok by (simp add: fill_order_closed [OF cfg] split: option.splits)
  then have "ord' = ord\<lparr>order_details :=
            map (\<lambda>item. item\<lparr>product_fld := product_map (product_id item),
                   image_fld := Some (image_root @ ''/'' @ product_id item @ ''.jpg'')\<rparr>)
              (order_details ord)\<rparr>"
    using ok by (simp add: fill_order_closed [OF cfg])
  then show ?thesis
    by (simp add: comp_def list_all_iff suffix_def)
qed

theorem image_url_with_separator_witness:
  "map image_fld
     (order_details (order_1\<lparr>order_details :=
        [(line_item ''the_odyssey'')\<lparr>product_fld := Some the_odyssey,
            image_fld := Some ''http://example.com/img/the_odyssey.jpg''\<rparr>,
         (line_item ''the_odyssey'')\<lparr>product_fld := Some the_odyssey,
            image_fld := Some ''http://example.com/img/the_odyssey.jpg''\<rparr>]\<rparr>)) =
     map (\<lambda>item. Some (''http://example.com/img'' @ ''/'' @ product_id item @ ''.jpg''))
       (order_details order_1)"
proof -
  have ok: "fill_order_details_with_product example_env order_1
      [''the_odyssey'' \<mapsto> the_odyssey] =
      Inr (order_1\<lparr>order_details :=
        [(line_item ''the_odyssey'')\<lparr>product_fld := Some the_odyssey,
            image_fld := Some ''http://example.com/img/the_odyssey.jpg''\<rparr>,
         (line_item ''the_odyssey'')\<lparr>product_fld := Some the_odyssey,
            image_fld := Some ''http://example.com/img/the_odyssey.jpg''\<rparr>]\<rparr>)"
    by (simp add: example_defs fill_order_details_with_product_def)
  from image_url_with_separator [OF example_config ok] show ?thesis by blast
qed

subsection \<open>Enriching twice\<close>

text \<open>
  C9. With the image root configured and a product map that has an entry for every
  product id of the order, enriching the enriched order again, with the same product map
  and image root, returns the enriched order itself.
\<close>

theorem enrichment_idempotent:
  assumes cfg: "config ev ''PRODUCT_IMAGE_ROOT'' = Some image_root"
    and cov: "set (get_product_ids_from_order ord) \<subseteq> dom product_map"
  shows "\<exists>ord'. fill_order_details_with_product ev ord product_map = Inr ord'
           \<and> fill_order_details_with_product ev ord' product_map = Inr ord'"
proof -
  let ?f = "\<lambda>item. item\<lparr>product_fld := product_map (product_id item),
               image_fld := Some (image_root @ ''/'' @ product_id item @ ''.jpg'')\<rparr>"
  let ?ord' = "ord\<lparr>order_details := map ?f (order_details ord)\<rparr>"
  have once: "fill_order_details_with_product ev ord product_map = Inr ?ord'"
    by (rule fill_order_covered [OF cfg cov])
  have ids: "get_product_ids_from_order ?ord' = get_product_ids_from_order ord"
    by (simp add: get_product_ids_from_order_def comp_def)
  have "fill_order_details_with_product ev ?ord' product_map =
      Inr (?ord'\<lparr>order_details := map ?f (order_details ?ord')\<rparr>)"
    by (rule fill_order_covered [OF cfg]) (simp only: ids cov)
  also have "?ord'\<lparr>order_details := map ?f (order_details ?ord')\<rparr> = ?ord'"
    by (simp add: comp_def)
  finally show ?thesis using once by blast
qed

theorem enrichment_idempotent_witness:
  "\<exists>ord'. fill_order_details_with_product example_env order_1
             [''the_odyssey'' \<mapsto> the_odyssey] = Inr ord'
     \<and> fill_order_details_with_product example_env ord'
             [''the_odyssey'' \<mapsto> the_odyssey] = Inr ord'"
proof -
  have cov: "set (get_product_ids_from_order order_1) \<subseteq> dom [''the_odyssey'' \<mapsto> the_odyssey]"
    by (simp add: example_defs get_product_ids_from_order_def)
  from enrichment_idempotent [OF example_config cov] show ?thesis .
qed

subsection \<open>A product id without an entry in the product map\<close>

text \<open>
  C6. With the image root configured, enrichment of an order either finds an entry for
  every product id, and then every line item of the result carries a \<^verbatim>\<open>product\<close> that is
  the entry of its id (never an absent or empty field), or some referenced id has no entry,
  and then the whole enrichment raises \<^verbatim>\<open>KeyError\<close> for such an id; under the
  precondition that every referenced id is a key, the second case cannot occur. When the
  catalog answer lacks a referenced id, \<^verbatim>\<open>get_order\<close> and \<^verbatim>\<open>list_orders\<close> end with that
  \<^verbatim>\<open>KeyError\<close>, which is not among their expected exceptions: a server fault.
\<close>

theorem missing_product_fails_hard:
  assumes cfg: "config ev ''PRODUCT_IMAGE_ROOT'' = Some image_root"
  shows "(set (get_product_ids_from_order ord) \<subseteq> dom product_map \<longrightarrow>
           (\<exists>ord'. fill_order_details_with_product ev ord product_map = Inr ord'
              \<and> list_all (\<lambda>item. product_fld item \<noteq> None
                             \<and> product_fld item = product_map (product_id item))
                   (order_details ord')))
       \<and> (\<not> set (get_product_ids_from_order ord) \<subseteq> dom product_map \<longrightarrow>
           (\<exists>pid. pid \<in> set (get_product_ids_from_order ord) \<and> product_map pid = None
              \<and> fill_order_details_with_product ev ord product_map = Inl (KeyError pid)))
       \<and> (orders_get_order be oid = Inr ord
            \<and> products_list be (get_product_ids_from_order ord) = Inr prods
            \<and> \<not> set (get_product_ids_from_order ord) \<subseteq> id_product ` set prods \<longrightarrow>
           (\<exists>pid. snd (get_order ev be oid) = Inl (KeyError pid))
            \<and> http_outcome GetOrder (snd (get_order ev be oid)) = ServerFault)
       \<and> (orders_list_orders be = Inr orders
            \<and> products_list be (get_product_ids_from_orders orders) = Inr prods
            \<and> \<not> set (get_product_ids_from_orders orders) \<subseteq> id_product ` set prods \<longrightarrow>
           (\<exists>pid. snd (list_orders ev be) = Inl (KeyError pid))
            \<and> http_outcome ListOrders (snd (list_orders ev be)) = ServerFault)"
proof (intro conjI impI)
  assume cov: "set (get_product_ids_from_order ord) \<subseteq> dom product_map"
  then have "list_all (\<lambda>item. product_map (product_id item) \<noteq> None) (order_details ord)"
    by (auto simp: get_product_ids_from_order_def list_all_iff)
  with fill_order_covered [OF cfg cov]
  show "\<exists>ord'. fill_order_details_with_product ev ord product_map = Inr ord'
      \<and> list_all (\<lambda>item. product_fld item \<noteq> None
                     \<and> product_fld item = product_map (product_id item))
           (order_details ord')"
    by (simp add: list_all_iff)
next
  assume "\<not> set (get_product_ids_from_order ord) \<subseteq> dom product_map"
  from fill_order_missing [OF cfg this]
  show "\<exists>pid. pid \<in> set (get_product_ids_from_order ord) \<and> product_map pid = None
      \<and> fill_order_details_with_product ev ord product_map = Inl (KeyError pid)" .
next
  assume a: "orders_get_order be oid = Inr ord
      \<and> products_list be (get_product_ids_from_order ord) = Inr prods
      \<and> \<not> set (get_product_ids_from_order ord) \<subseteq> id_product ` set prods"
  then have "\<not> set (get_product_ids_from_order ord) \<subseteq> dom (product_map_from prods)"
    by (simp only: dom_product_map_from not_False_eq_True)
  from fill_order_missing [OF cfg this] obtain pid where
    "fill_order_details_with_product ev ord (product_map_from prods) = Inl (KeyError pid)"
    by blast
  with a have r: "snd (get_order ev be oid) = Inl (KeyError pid)"
    by (simp add: get_order_def get_order_priv_def list_products_def Let_def)
  then show "\<exists>pid. snd (get_order ev be oid) = Inl (KeyError pid)" by blast
  from r show "http_outcome GetOrder (snd (get_order ev be oid)) = ServerFault"
    by (simp add: http_outcome_def)
next
  assume a: "orders_list_orders be = Inr orders
      \<and> products_list be (get_product_ids_from_orders orders) = Inr prods
      \<and> \<not> set (get_product_ids_from_orders orders) \<subseteq> id_product ` set prods"
  then have "\<not> set (get_product_ids_from_orders orders) \<subseteq> dom (product_map_from prods)"
    by (simp only: dom_product_map_from not_False_eq_True)
  from fill_orders_missing [OF cfg this] obtain pid where
    "fill_orders ev (product_map_from prods) orders = Inl (KeyError pid)"
    by blast
  with a have r: "snd (list_orders ev be) = Inl (KeyError pid)"
    by (simp add: list_orders_def get_all_orders_def list_products_def Let_def)
  then show "\<exists>pid. snd (list_orders ev be) = Inl (KeyError pid)" by blast
  from r show "http_outcome ListOrders (snd (list_orders ev be)) = ServerFault"
    by (simp add: http_outcome_def)
qed

theorem missing_product_fails_hard_witness:
  "(\<exists>ord'. fill_order_details_with_product example_env order_1
              [''the_odyssey'' \<mapsto> the_odyssey] = Inr ord'
      \<and> list_all (\<lambda>item. product_fld item \<noteq> None
                     \<and> product_fld item = [''the_odyssey'' \<mapsto> the_odyssey] (product_id item))
           (order_details ord'))
   \<and> (\<exists>pid. pid \<in> set (get_product_ids_from_order order_3)
      \<and> [''the_enigma'' \<mapsto> the_enigma] pid = None
      \<and> fill_order_details_with_product example_env order_3
           [''the_enigma'' \<mapsto> the_enigma] = Inl (KeyError pid))
   \<and> http_outcome GetOrder
        (snd (get_order example_env
           (example_backend\<lparr>orders_get_order := \<lambda>oid. Inr order_3,
              orders_list_orders := Inr [order_1, order_3]\<rparr>) 3)) = ServerFault
   \<and> http_outcome ListOrders
        (snd (list_orders example_env
           (example_backend\<lparr>orders_get_order := \<lambda>oid. Inr order_3,
              orders_list_orders := Inr [order_1, order_3]\<rparr>))) = ServerFault"
proof -
  let ?be = "example_backend\<lparr>orders_get_order := \<lambda>oid. Inr order_3,
      orders_list_orders := Inr [order_1, order_3]\<rparr>"
  have cov: "set (get_product_ids_from_order order_1) \<subseteq> dom [''the_odyssey'' \<mapsto> the_odyssey]"
    by (simp add: example_defs get_product_ids_from_order_def)
  have miss: "\<not> set (get_product_ids_from_order order_3) \<subseteq> dom [''the_enigma'' \<mapsto> the_enigma]"
    by (simp add: example_defs get_product_ids_from_order_def)
  have one: "orders_get_order ?be 3 = Inr order_3
      \<and> products_list ?be (get_product_ids_from_order order_3) = Inr [the_enigma]
      \<and> \<not> set (get_product_ids_from_order order_3) \<subseteq> id_product ` set [the_enigma]"
    by (simp add: example_defs get_product_ids_from_order_def)
  have all: "orders_list_orders ?be = Inr [order_1, order_3]
      \<and> products_list ?be (get_product_ids_from_orders [order_1, order_3]) =
          Inr [the_odyssey, the_enigma]
      \<and> \<not> set (get_product_ids_from_orders [order_1, order_3])
          \<subseteq> id_product ` set [the_odyssey, the_enigma]"
    by (simp add: example_defs get_product_ids_from_orders_def get_product_ids_from_order_def)
  from missing_product_fails_hard
      [OF example_config, of order_1 "[''the_odyssey'' \<mapsto> the_odyssey]"] cov
  have a: "\<exists>ord'. fill_order_details_with_product example_env order_1
              [''the_odyssey'' \<mapsto> the_odyssey] = Inr ord'
      \<and> list_all (\<lambda>item. product_fld item \<noteq> None
                     \<and> product_fld item = [''the_odyssey'' \<mapsto> the_odyssey] (product_id item))
           (order_details ord')"
    by blast
  from missing_product_fails_hard
      [OF example_config, of order_3 "[''the_enigma'' \<mapsto> the_enigma]" ?be 3 "[the_enigma]"]
    miss one
  have b: "\<exists>pid. pid \<in> set (get_product_ids_from_order order_3)
      \<and> [''the_enigma'' \<mapsto> the_enigma] pid = None
      \<and> fill_order_details_with_product example_env order_3
           [''the_enigma'' \<mapsto> the_enigma] = Inl (KeyError pid)"
    and c: "http_outcome GetOrder (snd (get_order example_env ?be 3)) = ServerFault"
    by blast+
  from missing_product_fails_hard
      [OF example_config, of order_1 "[''the_odyssey'' \<mapsto> the_odyssey]" ?be 3
         "[the_odyssey, the_enigma]" "[order_1, order_3]"]
    all
  have d: "http_outcome ListOrders (snd (list_orders example_env ?be)) = ServerFault"
    by blast
  from a b c d show ?thesis by blast
qed

subsection \<open>Malformed and invalid request bodies\<close>

text \<open>
  What \<^verbatim>\<open>create_product\<close> and \<^verbatim>\<open>create_order\<close> do with the two exceptions that the
  comment in the source names: a \<^verbatim>\<open>ValueError\<close> of the parser becomes \<^verbatim>\<open>BadRequest\<close>, a
  \<^verbatim>\<open>ValidationError\<close> of the schema passes through, no remote call is made, and both are
  among the expected exceptions of the two endpoints.
\<close>

lemma loads_exceptions_at_endpoints:
  "(json_loads ev text = Inl (ValueError msg) \<longrightarrow>
      create_product ev be text = ([], Inl (BadRequest (''Invalid json: '' @ msg)))
      \<and> create_order ev be text = ([], Inl (BadRequest (''Invalid json: '' @ msg)))
      \<and> http_outcome CreateProduct (snd (create_product ev be text)) = ClientError
      \<and> http_outcome CreateOrder (snd (create_order ev be text)) = ClientError)
   \<and> (json_loads ev text = Inr data
        \<and> ProductSchema_load ev data = Inl (ValidationError errors) \<longrightarrow>
      create_product ev be text = ([], Inl (ValidationError errors))
      \<and> http_outcome CreateProduct (snd (create_product ev be text)) = ClientError)
   \<and> (json_loads ev text = Inr data
        \<and> CreateOrderSchema_load ev data = Inl (ValidationError errors) \<longrightarrow>
      create_order ev be text = ([], Inl (ValidationError errors))
      \<and> http_outcome CreateOrder (snd (create_order ev be text)) = ClientError)"
  by (simp add: create_product_def create_order_def schema_loads_def http_outcome_def)

text \<open>
  C8 asks that every body that is valid JSON but does not fit the schema ends in
  \<^verbatim>\<open>ValidationError\<close>, and that no bad body ends as a server fault. The code misses that
  where \<^verbatim>\<open>loads\<close> returns \<^verbatim>\<open>None\<close> without raising, as for the body \<^verbatim>\<open>null\<close>:
  \<^verbatim>\<open>create_product\<close> hands \<^verbatim>\<open>None\<close> to the catalog and then raises \<^verbatim>\<open>TypeError\<close> at
  \<^verbatim>\<open>product_data['id']\<close>, \<^verbatim>\<open>create_order\<close> raises \<^verbatim>\<open>TypeError\<close> at
  \<^verbatim>\<open>order['order_details']\<close>, and neither endpoint expects a \<^verbatim>\<open>TypeError\<close>. A
  \<^verbatim>\<open>RecursionError\<close> of the parser is not a \<^verbatim>\<open>ValueError\<close>, so the \<^verbatim>\<open>except\<close> clause lets it
  through as well. Each of the three ends as a server fault.
\<close>

theorem null_body_is_server_fault:
  "(json_loads ev text = Inr data \<and> ProductSchema_load ev data = Inr None
      \<and> products_create be None = Inr () \<longrightarrow>
      create_product ev be text =
        ([ProductsCreate None], Inl (TypeError '''NoneType' object is not subscriptable''))
      \<and> http_outcome CreateProduct (snd (create_product ev be text)) = ServerFault)
   \<and> (json_loads ev text = Inr data \<and> CreateOrderSchema_load ev data = Inr None \<longrightarrow>
      create_order ev be text = ([], Inl (TypeError '''NoneType' object is not subscriptable''))
      \<and> http_outcome CreateOrder (snd (create_order ev be text)) = ServerFault)
   \<and> (json_loads ev text = Inl (RecursionError msg) \<longrightarrow>
      create_product ev be text = ([], Inl (RecursionError msg))
      \<and> create_order ev be text = ([], Inl (RecursionError msg))
      \<and> http_outcome CreateProduct (snd (create_product ev be text)) = ServerFault
      \<and> http_outcome CreateOrder (snd (create_order ev be text)) = ServerFault)"
  by (simp add: create_product_def create_order_def schema_loads_def http_outcome_def)

theorem null_body_is_server_fault_witness:
  "create_product example_env example_backend ''null'' =
     ([ProductsCreate None], Inl (TypeError '''NoneType' object is not subscriptable''))
   \<and> http_outcome CreateProduct
       (snd (create_product example_env example_backend ''null'')) = ServerFault
   \<and> create_order example_env example_backend ''null'' =
     ([], Inl (TypeError '''NoneType' object is not subscriptable''))
   \<and> http_outcome CreateOrder
       (snd (create_order example_env example_backend ''null'')) = ServerFault
   \<and> http_outcome CreateProduct
       (snd (create_product
          (example_env\<lparr>json_loads :=
             \<lambda>text. Inl (RecursionError ''maximum recursion depth exceeded'')\<rparr>)
          example_backend ''[[[['')) = ServerFault"
proof -
  let ?deep = "example_env\<lparr>json_loads :=
      \<lambda>text. Inl (RecursionError ''maximum recursion depth exceeded'')\<rparr>"
  have parsed: "json_loads example_env ''null'' = Inr JNull"
    by (simp add: example_env_def)
  have p: "ProductSchema_load example_env JNull = Inr None"
    by (simp add: example_env_def)
  have c: "CreateOrderSchema_load example_env JNull = Inr None"
    by (simp add: example_env_def)
  have b: "products_create example_backend None = Inr ()"
    by (simp add: example_backend_def)
  have r: "json_loads ?deep ''[[[['' = Inl (RecursionError ''maximum recursion depth exceeded'')"
    by simp
  from null_body_is_server_fault [of example_env "''null''" JNull example_backend]
    parsed p c b
  have 1: "create_product example_env example_backend ''null'' =
        ([ProductsCreate None], Inl (TypeError '''NoneType' object is not subscriptable''))"
    and 2: "http_outcome CreateProduct
        (snd (create_product example_env example_backend ''null'')) = ServerFault"
    and 3: "create_order example_env example_backend ''null'' =
        ([], Inl (TypeError '''NoneType' object is not subscriptable''))"
    and 4: "http_outcome CreateOrder
        (snd (create_order example_env example_backend ''null'')) = ServerFault"
    by blast+
  from null_body_is_server_fault
      [of ?deep "''[[[[''" _ example_backend "''maximum recursion depth exceeded''"] r
  have 5: "http_outcome CreateProduct
        (snd (create_product ?deep example_backend ''[[[['')) = ServerFault"
    by blast
  from 1 2 3 4 5 show ?thesis by blast
qed

subsection \<open>The response of a product deletion\<close>

text \<open>
  C10. When the catalog's \<^verbatim>\<open>delete\<close> returns a product, \<^verbatim>\<open>remove_product\<close> answers with
  that product serialized by \<^verbatim>\<open>ProductSchema\<close>, as JSON: the very response that
  \<^verbatim>\<open>get_product\<close> gives when the catalog's \<^verbatim>\<open>get\<close> returns the same product.
\<close>

theorem remove_product_returns_serialized_product:
  assumes "products_delete be pid = Inr p"
  shows "remove_product ev be pid =
           ([ProductsDelete pid],
            Inr \<lparr>body = ProductSchema_dumps ev p, mimetype = ''application/json''\<rparr>)
       \<and> (products_get be pid = Inr p \<longrightarrow>
            snd (remove_product ev be pid) = snd (get_product ev be pid))"
  using assms by (simp add: remove_product_def get_product_def)

theorem remove_product_returns_serialized_product_witness:
  "remove_product example_env example_backend ''the_odyssey'' =
     ([ProductsDelete ''the_odyssey''],
      Inr \<lparr>body = ProductSchema_dumps example_env the_odyssey,
           mimetype = ''application/json''\<rparr>)
   \<and> snd (remove_product example_env example_backend ''the_odyssey'') =
       snd (get_product example_env example_backend ''the_odyssey'')"
proof -
  have d: "products_delete example_backend ''the_odyssey'' = Inr the_odyssey"
    by (simp add: example_backend_def)
  have g: "products_get example_backend ''the_odyssey'' = Inr the_odyssey"
    by (simp add: example_backend_def)
  from remove_product_returns_serialized_product [OF d, of example_env] g
  show ?thesis by blast
qed

end
